theory Spec2Isabelle
  imports Main "HOL-Library.Char_ord" "HOL-Library.List_Lexorder" "HOL-Library.Multiset"
begin

section \<open>The markdown renderer of server/events/markdown_renderer.go\<close>

text \<open>
  The renderer formats the outcome of a command as markdown by executing one of a fixed
  set of templates of Go's \<^verbatim>\<open>text/template\<close> package. The development has three layers:
  the part of \<^verbatim>\<open>text/template\<close> and \<^verbatim>\<open>strings\<close> that the renderer relies on (values,
  execution and parsing of templates, title case), the data and the templates of the
  source file, and the functions \<^verbatim>\<open>renderTemplate\<close>, \<^verbatim>\<open>renderProjectResults\<close> and
  \<^verbatim>\<open>Render\<close> themselves. Go strings are byte sequences and are modelled by
  \<^typ>\<open>string\<close>.
\<close>

subsection \<open>Values seen by the template engine\<close>

text \<open>
  \<^verbatim>\<open>text/template\<close> inspects its data by reflection. The renderer only ever hands it
  structs whose fields are strings, booleans and one \<^verbatim>\<open>map[string]string\<close>; \<^verbatim>\<open>len\<close>
  produces an integer. A struct is the list of its exported fields in declaration order,
  the fields of an embedded struct being promoted; a map is the list of its entries.
\<close>

datatype val =
    VString string
  | VBool bool
  | VInt int
  | VMap "(string \<times> string) list"
  | VStruct "(string \<times> val) list"

text \<open>Decimal notation of a number, as \<^verbatim>\<open>fmt\<close> prints an \<^verbatim>\<open>int\<close>.\<close>

fun digits :: "nat \<Rightarrow> string" where
  "digits n = (if n < 10 then [char_of (48 + n)] else digits (n div 10) @ [char_of (48 + n mod 10)])"

declare digits.simps [simp del]

definition itoa :: "int \<Rightarrow> string" where
  "itoa i = (if i < 0 then ''-'' @ digits (nat (- i)) else digits (nat i))"

text \<open>Joining with single blanks, as \<^verbatim>\<open>fmt\<close> separates the parts of a composite value.\<close>

fun unwords :: "string list \<Rightarrow> string" where
  "unwords [] = []"
| "unwords [s] = s"
| "unwords (s # t # ss) = s @ '' '' @ unwords (t # ss)"

text \<open>
  The template engine walks a map in the sorted order of its keys; Go compares strings
  byte by byte, which is the lexicographic order on \<^typ>\<open>string\<close>.
\<close>

definition sortedEntries :: "(string \<times> 'a) list \<Rightarrow> (string \<times> 'a) list" where
  "sortedEntries kvs = sort_key fst kvs"

text \<open>What \<^verbatim>\<open>fmt.Fprint\<close> writes for a value (the \<^verbatim>\<open>%v\<close> format).\<close>

fun printValue :: "val \<Rightarrow> string" where
  "printValue (VString s) = s"
| "printValue (VBool b) = (if b then ''true'' else ''false'')"
| "printValue (VInt i) = itoa i"
| "printValue (VMap kvs) =
     ''map['' @ unwords (map (\<lambda>kv. fst kv @ '':'' @ snd kv) (sortedEntries kvs)) @ '']''"
| "printValue (VStruct fs) = ''{'' @ unwords (map (\<lambda>f. printValue (snd f)) fs) @ ''}''"

text \<open>The truth of a value in \<^verbatim>\<open>{{if}}\<close>: anything but the zero value of its type.\<close>

fun truth :: "val \<Rightarrow> bool" where
  "truth (VString s) = (s \<noteq> [])"
| "truth (VBool b) = b"
| "truth (VInt i) = (i \<noteq> 0)"
| "truth (VMap kvs) = (kvs \<noteq> [])"
| "truth (VStruct fs) = True"

subsection \<open>Templates and their execution\<close>

text \<open>
  The parse tree of a template, restricted to the constructs that occur in the renderer's
  templates: literal text, an action printing a pipeline, \<^verbatim>\<open>{{if}}\<close> and \<^verbatim>\<open>{{range}}\<close>
  without \<^verbatim>\<open>{{else}}\<close>, fields of the dot, variables and the builtin \<^verbatim>\<open>len\<close>.
\<close>

datatype expr =
    DotNode
  | FieldNode string
  | VariableNode string
  | LenCommand expr

datatype node =
    TextNode string
  | ActionNode expr
  | IfNode expr "node list"
  | RangeNode "string list" expr "node list"

datatype exec_error =
    CantEvaluateField string
  | UndefinedVariable string
  | LenOfType
  | RangeCantIterate
  | TooManyDeclarations

text \<open>
  The text of an execution error, as the method \<^verbatim>\<open>Error\<close> of the error value returns it.
  The template package composes it from the name of the template, the line and column of
  the node that was being evaluated, the text of that node and the Go type of the value
  at hand. Positions and Go types are not part of the model, so the text is left
  unspecified: nothing is stated about it but where \<^verbatim>\<open>renderTemplate\<close> puts it.
\<close>

definition errorText :: "exec_error \<Rightarrow> string" where
  "errorText = undefined"

type_synonym vars = "(string \<times> val) list"

text \<open>
  A field of a struct is looked up by name and is an error when the struct has none; on
  a \<^verbatim>\<open>map[string]string\<close> the name is a key, a missing key giving the empty string.
\<close>

fun evalField :: "val \<Rightarrow> string \<Rightarrow> exec_error + val" where
  "evalField (VStruct fs) name =
     (case map_of fs name of Some v \<Rightarrow> Inr v | None \<Rightarrow> Inl (CantEvaluateField name))"
| "evalField (VMap kvs) name =
     Inr (VString (case map_of kvs name of Some s \<Rightarrow> s | None \<Rightarrow> []))"
| "evalField _ name = Inl (CantEvaluateField name)"

fun lenValue :: "val \<Rightarrow> exec_error + val" where
  "lenValue (VString s) = Inr (VInt (int (length s)))"
| "lenValue (VMap kvs) = Inr (VInt (int (length kvs)))"
| "lenValue _ = Inl LenOfType"

fun evalExpr :: "vars \<Rightarrow> val \<Rightarrow> expr \<Rightarrow> exec_error + val" where
  "evalExpr vs dot DotNode = Inr dot"
| "evalExpr vs dot (FieldNode name) = evalField dot name"
| "evalExpr vs dot (VariableNode name) =
     (case map_of vs name of Some v \<Rightarrow> Inr v | None \<Rightarrow> Inl (UndefinedVariable name))"
| "evalExpr vs dot (LenCommand e) =
     (case evalExpr vs dot e of Inl err \<Rightarrow> Inl err | Inr v \<Rightarrow> lenValue v)"

text \<open>Output is written piece by piece; the first error ends the execution.\<close>

fun sequence :: "(exec_error + string) list \<Rightarrow> exec_error + string" where
  "sequence [] = Inr []"
| "sequence (r # rs) =
     (case r of
        Inl err \<Rightarrow> Inl err
      | Inr s \<Rightarrow> (case sequence rs of Inl err \<Rightarrow> Inl err | Inr t \<Rightarrow> Inr (s @ t)))"

text \<open>
  The variables a \<^verbatim>\<open>{{range}}\<close> declares for one iteration: none, the element, or the
  key and the element. The most recent declaration of a name is found first.
\<close>

fun declare_vars :: "string list \<Rightarrow> string \<Rightarrow> string \<Rightarrow> vars \<Rightarrow> exec_error + vars" where
  "declare_vars [] k v vs = Inr vs"
| "declare_vars [x] k v vs = Inr ((x, VString v) # vs)"
| "declare_vars [x, y] k v vs = Inr ((y, VString v) # (x, VString k) # vs)"
| "declare_vars _ k v vs = Inl TooManyDeclarations"

fun walk :: "vars \<Rightarrow> val \<Rightarrow> node \<Rightarrow> exec_error + string" where
  "walk vs dot (TextNode s) = Inr s"
| "walk vs dot (ActionNode e) =
     (case evalExpr vs dot e of Inl err \<Rightarrow> Inl err | Inr v \<Rightarrow> Inr (printValue v))"
| "walk vs dot (IfNode e body) =
     (case evalExpr vs dot e of
        Inl err \<Rightarrow> Inl err
      | Inr v \<Rightarrow> if truth v then sequence (map (walk vs dot) body) else Inr [])"
| "walk vs dot (RangeNode names e body) =
     (case evalExpr vs dot e of
        Inl err \<Rightarrow> Inl err
      | Inr (VMap kvs) \<Rightarrow>
          sequence (map (\<lambda>kv.
            case declare_vars names (fst kv) (snd kv) vs of
              Inl err \<Rightarrow> Inl err
            | Inr vs' \<Rightarrow> sequence (map (walk vs' (VString (snd kv))) body))
            (sortedEntries kvs))
      | Inr _ \<Rightarrow> Inl RangeCantIterate)"

text \<open>\<^verbatim>\<open>Template.Execute\<close>: the dot and the variable \<^verbatim>\<open>$\<close> start as the data.\<close>

definition Execute :: "node list \<Rightarrow> val \<Rightarrow> exec_error + string" where
  "Execute tmpl data = sequence (map (walk [(''$'', data)] data) tmpl)"

subsection \<open>Parsing a template\<close>

text \<open>
  \<^verbatim>\<open>Template.Parse\<close>, for the part of the template language that the renderer's
  templates are written in; a text that uses anything else does not parse. The text is
  cut at the delimiters \<^verbatim>\<open>{{\<close> and \<^verbatim>\<open>}}\<close> into literal text and actions.
\<close>

datatype item = TextItem string | ActionItem string

fun scan :: "bool \<Rightarrow> string \<Rightarrow> string \<Rightarrow> item list option" where
  "scan False acc [] = Some (if acc = [] then [] else [TextItem (rev acc)])"
| "scan True acc [] = None"
| "scan False acc [c] = Some [TextItem (rev (c # acc))]"
| "scan True acc [c] = None"
| "scan False acc (c # d # cs) =
     (if c = CHR ''{'' \<and> d = CHR ''{''
      then map_option (\<lambda>items. if acc = [] then items else TextItem (rev acc) # items)
             (scan True [] cs)
      else scan False (c # acc) (d # cs))"
| "scan True acc (c # d # cs) =
     (if c = CHR ''}'' \<and> d = CHR ''}''
      then map_option (Cons (ActionItem (rev acc))) (scan False [] cs)
      else scan True (c # acc) (d # cs))"

text \<open>
  Inside an action blanks separate the words and a comma is a word of its own. A word is
  a field of the dot, the dot itself or a variable in scope; a pipeline is such a word or
  the builtin \<^verbatim>\<open>len\<close> applied to one.
\<close>

fun split_words :: "string \<Rightarrow> string \<Rightarrow> string list" where
  "split_words acc [] = (if acc = [] then [] else [rev acc])"
| "split_words acc (c # cs) =
     (if c = CHR '' '' then (if acc = [] then [] else [rev acc]) @ split_words [] cs
      else if c = CHR '','' then (if acc = [] then [] else [rev acc]) @ [[c]] @ split_words [] cs
      else split_words (c # acc) cs)"

definition isAlphaNumeric :: "char \<Rightarrow> bool" where
  "isAlphaNumeric r =
     (r = CHR ''_'' \<or> CHR ''0'' \<le> r \<and> r \<le> CHR ''9'' \<or> CHR ''a'' \<le> r \<and> r \<le> CHR ''z''
      \<or> CHR ''A'' \<le> r \<and> r \<le> CHR ''Z'')"

definition isVariable :: "string \<Rightarrow> bool" where
  "isVariable w = (case w of [] \<Rightarrow> False | c # cs \<Rightarrow> c = CHR ''$'' \<and> list_all isAlphaNumeric cs)"

definition operand :: "string list \<Rightarrow> string \<Rightarrow> expr option" where
  "operand scope w =
     (case w of
        [] \<Rightarrow> None
      | c # cs \<Rightarrow>
          if c = CHR ''.'' \<and> cs = [] then Some DotNode
          else if c = CHR ''.'' \<and> cs \<noteq> [] \<and> list_all isAlphaNumeric cs then Some (FieldNode cs)
          else if isVariable w \<and> w \<in> set scope then Some (VariableNode w)
          else None)"

definition pipeline :: "string list \<Rightarrow> string list \<Rightarrow> expr option" where
  "pipeline scope ws =
     (case ws of
        [w] \<Rightarrow> operand scope w
      | [f, w] \<Rightarrow> if f = ''len'' then map_option LenCommand (operand scope w) else None
      | _ \<Rightarrow> None)"

text \<open>
  The actions: \<^verbatim>\<open>end\<close>, \<^verbatim>\<open>if\<close> with a pipeline, \<^verbatim>\<open>range\<close> with a pipeline and one, two
  or no variable declared, and a pipeline to print. The variables that a \<^verbatim>\<open>range\<close>
  declares are in scope from their declaration to the \<^verbatim>\<open>end\<close> of the range.
\<close>

datatype action =
    EndAction
  | IfAction expr
  | RangeAction "string list" expr
  | PrintAction expr

definition parse_action :: "string list \<Rightarrow> string list \<Rightarrow> action option" where
  "parse_action scope ws =
     (if ws = [''end''] then Some EndAction
      else if take 1 ws = [''if''] then map_option IfAction (pipeline scope (drop 1 ws))
      else if take 1 ws = [''range''] then
        (if 3 < length ws \<and> isVariable (ws ! 1) \<and> ws ! 2 = '':=''
         then map_option (RangeAction [ws ! 1]) (pipeline (ws ! 1 # scope) (drop 3 ws))
         else if 5 < length ws \<and> isVariable (ws ! 1) \<and> ws ! 2 = '','' \<and>
                 isVariable (ws ! 3) \<and> ws ! 4 = '':=''
         then map_option (RangeAction [ws ! 1, ws ! 3])
                (pipeline (ws ! 3 # ws ! 1 # scope) (drop 5 ws))
         else map_option (RangeAction []) (pipeline scope (drop 1 ws)))
      else map_option PrintAction (pipeline scope ws))"

text \<open>
  The tree is built from the items with a stack of the blocks that are open; each block
  remembers the nodes before it and the scope outside it. A block left open and an
  \<^verbatim>\<open>end\<close> without a block are errors.
\<close>

datatype frame =
    IfFrame expr "node list" "string list"
  | RangeFrame "string list" expr "node list" "string list"

fun build :: "item list \<Rightarrow> frame list \<Rightarrow> string list \<Rightarrow> node list \<Rightarrow> node list option" where
  "build [] [] scope cur = Some (rev cur)"
| "build [] (f # fs) scope cur = None"
| "build (TextItem s # items) fs scope cur = build items fs scope (TextNode s # cur)"
| "build (ActionItem s # items) fs scope cur =
     (case parse_action scope (split_words [] s) of
        None \<Rightarrow> None
      | Some (PrintAction e) \<Rightarrow> build items fs scope (ActionNode e # cur)
      | Some (IfAction e) \<Rightarrow> build items (IfFrame e cur scope # fs) scope []
      | Some (RangeAction names e) \<Rightarrow>
          build items (RangeFrame names e cur scope # fs) (rev names @ scope) []
      | Some EndAction \<Rightarrow>
          (case fs of
             [] \<Rightarrow> None
           | IfFrame e outer scope' # fs' \<Rightarrow> build items fs' scope' (IfNode e (rev cur) # outer)
           | RangeFrame names e outer scope' # fs' \<Rightarrow>
               build items fs' scope' (RangeNode names e (rev cur) # outer)))"

definition Parse :: "string \<Rightarrow> node list option" where
  "Parse text =
     (case scan False [] text of None \<Rightarrow> None | Some items \<Rightarrow> build items [] [''$''] [])"

text \<open>
  \<^verbatim>\<open>template.Must\<close> panics when the text does not parse, and it would do so when the
  package is initialised, before any call of the renderer. All templates of the file
  parse (see the lemmas on their trees below), so the panic does not occur.
\<close>

definition Must :: "node list option \<Rightarrow> node list" where
  "Must t = the t"

subsection \<open>Title case\<close>

text \<open>
  \<^verbatim>\<open>strings.Title\<close> maps to title case every letter that begins a word, a word beginning
  after a separator. On bytes up to \<^verbatim>\<open>0x7F\<close> everything but letters, digits and the
  underscore is a separator and only the letters \<^verbatim>\<open>a\<close> to \<^verbatim>\<open>z\<close> change. For bytes above
  \<^verbatim>\<open>0x7F\<close> the library consults the Unicode tables; the model leaves such bytes as they
  are and takes none of them for a separator, so it is exact on ASCII text only. No
  theorem below depends on what \<^verbatim>\<open>Title\<close> returns.
\<close>

definition isSeparator :: "char \<Rightarrow> bool" where
  "isSeparator r =
     (if of_char r \<le> (0x7F :: nat)
      then \<not> (CHR ''0'' \<le> r \<and> r \<le> CHR ''9'' \<or> CHR ''a'' \<le> r \<and> r \<le> CHR ''z''
              \<or> CHR ''A'' \<le> r \<and> r \<le> CHR ''Z'' \<or> r = CHR ''_'')
      else False)"

definition ToTitle :: "char \<Rightarrow> char" where
  "ToTitle r = (if CHR ''a'' \<le> r \<and> r \<le> CHR ''z'' then char_of (of_char r - (32 :: nat)) else r)"

fun Title_from :: "char \<Rightarrow> string \<Rightarrow> string" where
  "Title_from prev [] = []"
| "Title_from prev (r # s) = (if isSeparator prev then ToTitle r else r) # Title_from r s"

definition Title :: "string \<Rightarrow> string" where
  "Title s = Title_from (CHR '' '') s"

subsection \<open>The data of the renderer\<close>

text \<open>
  Modelled from the spec: the declarations of \<^verbatim>\<open>CommandName\<close>, \<^verbatim>\<open>CommandResponse\<close>,
  \<^verbatim>\<open>ProjectResult\<close> and \<^verbatim>\<open>PlanSuccess\<close> are not in the source file. Their fields and
  the types of the fields are those the renderer reads and writes. Of a command name the
  renderer only uses the method \<^verbatim>\<open>String\<close>, so a command name is the text that method
  returns. A value of the interface \<^verbatim>\<open>error\<close> is \<^verbatim>\<open>nil\<close> (\<^term>\<open>None\<close>) or carries the
  message its method \<^verbatim>\<open>Error\<close> returns. \<^verbatim>\<open>ProjectResult.PlanSuccess\<close> is a pointer: it
  is \<^verbatim>\<open>nil\<close> or the address of a \<^verbatim>\<open>PlanSuccess\<close> in the heap.
\<close>

datatype CommandName = CommandName (String: string)

record PlanSuccess =
  TerraformOutput :: string
  LockKey :: string
  LockURL :: string

type_synonym addr = nat

record ProjectResult =
  Path :: string
  Error :: "string option"
  Failure :: string
  PlanSuccess :: "addr option"
  ApplySuccess :: string

record CommandResponse =
  Error :: "string option"
  Failure :: string
  ProjectResults :: "ProjectResult list"

record MarkdownRenderer =
  LockURLBuilder :: "string \<Rightarrow> string"

record CommonData =
  Command :: string
  Verbose :: bool
  Log :: string

text \<open>
  The structs handed to the templates, as the template engine sees them. \<^verbatim>\<open>ErrData\<close>,
  \<^verbatim>\<open>FailureData\<close> and \<^verbatim>\<open>ResultData\<close> embed \<^verbatim>\<open>CommonData\<close>, whose fields are promoted.
\<close>

definition CommonData_fields :: "CommonData \<Rightarrow> (string \<times> val) list" where
  "CommonData_fields common =
     [(''Command'', VString (Command common)),
      (''Verbose'', VBool (Verbose common)),
      (''Log'', VString (Log common))]"

definition ErrData :: "string \<Rightarrow> CommonData \<Rightarrow> val" where
  "ErrData err common = VStruct ((''Error'', VString err) # CommonData_fields common)"

definition FailureData :: "string \<Rightarrow> CommonData \<Rightarrow> val" where
  "FailureData failure common = VStruct ((''Failure'', VString failure) # CommonData_fields common)"

definition ResultData :: "(string \<times> string) list \<Rightarrow> CommonData \<Rightarrow> val" where
  "ResultData results common = VStruct ((''Results'', VMap results) # CommonData_fields common)"

definition PlanSuccess_val :: "PlanSuccess \<Rightarrow> val" where
  "PlanSuccess_val p =
     VStruct [(''TerraformOutput'', VString (TerraformOutput p)),
              (''LockKey'', VString (LockKey p)),
              (''LockURL'', VString (LockURL p))]"

subsection \<open>The templates\<close>

text \<open>
  The templates of the source file, parsed from the same texts. \<^verbatim>\<open>logTmpl\<close>,
  \<^verbatim>\<open>errTmplText\<close> and \<^verbatim>\<open>failureTmplText\<close> are texts that the source puts together
  before parsing.
\<close>

definition logTmpl :: string where
  "logTmpl = ''{{if .Verbose}}\<newline><details><summary>Log</summary>\<newline>  <p>\<newline>\<newline>```\<newline>{{.Log}}```\<newline></p></details>{{end}}\<newline>''"

definition singleProjectTmpl :: "node list" where
  "singleProjectTmpl =
     Must (Parse (''{{ range $result := .Results }}{{$result}}{{end}}\<newline>'' @ logTmpl))"

definition multiProjectTmpl :: "node list" where
  "multiProjectTmpl =
     Must (Parse (
       ''Ran {{.Command}} in {{ len .Results }} directories:\<newline>'' @
       ''{{ range $path, $result := .Results }}'' @
       '' * `{{$path}}`\<newline>'' @
       ''{{end}}\<newline>'' @
       ''{{ range $path, $result := .Results }}'' @
       ''## {{$path}}/\<newline>'' @
       ''{{$result}}\<newline>'' @
       ''---\<newline>{{end}}'' @
       logTmpl))"

definition planSuccessTmpl :: "node list" where
  "planSuccessTmpl =
     Must (Parse (
       ''```diff\<newline>'' @
       ''{{.TerraformOutput}}\<newline>'' @
       ''```\<newline>\<newline>'' @
       ''* To **discard** this plan click [here]({{.LockURL}}).''))"

definition applySuccessTmpl :: "node list" where
  "applySuccessTmpl =
     Must (Parse (
       ''```diff\<newline>'' @
       ''{{.Output}}\<newline>'' @
       ''```''))"

definition errTmplText :: string where
  "errTmplText =
     ''**{{.Command}} Error**\<newline>'' @
     ''```\<newline>'' @
     ''{{.Error}}\<newline>'' @
     ''```\<newline>''"

definition errTmpl :: "node list" where
  "errTmpl = Must (Parse errTmplText)"

definition errWithLogTmpl :: "node list" where
  "errWithLogTmpl = Must (Parse (errTmplText @ logTmpl))"

definition failureTmplText :: string where
  "failureTmplText = ''**{{.Command}} Failed**: {{.Failure}}\<newline>''"

definition failureTmpl :: "node list" where
  "failureTmpl = Must (Parse failureTmplText)"

definition failureWithLogTmpl :: "node list" where
  "failureWithLogTmpl = Must (Parse (failureTmplText @ logTmpl))"

subsection \<open>Rendering\<close>

text \<open>
  \<^verbatim>\<open>renderTemplate\<close> executes a template into a buffer and returns the buffer, or, when
  the execution fails, a message with the error and nothing of the buffer. The receiver
  is not used.
\<close>

definition renderTemplate :: "node list \<Rightarrow> val \<Rightarrow> string" where
  "renderTemplate tmpl data =
     (case Execute tmpl data of
        Inl err \<Rightarrow> ''Failed to render template, this is a bug: '' @ errorText err
      | Inr buf \<Rightarrow> buf)"

text \<open>
  The state outside the renderer that a call can touch: the heap of \<^verbatim>\<open>PlanSuccess\<close>
  values that the results point to, and the arguments with which the lock URL builder
  has been called so far, oldest first. The builder itself is a function from the key to
  the URL, supplied by the caller with the renderer; a renderer whose field
  \<^verbatim>\<open>LockURLBuilder\<close> was never set has a subsection of its own below. In Go every
  pointer that is not \<^verbatim>\<open>nil\<close> points to a value, so the heap is total.
\<close>

record world =
  heap :: "addr \<Rightarrow> PlanSuccess"
  calls :: "string list"

text \<open>
  The map \<^verbatim>\<open>results\<close> is the list of its entries, its keys distinct; an assignment
  \<^verbatim>\<open>results[k] = v\<close> replaces the entry of \<^verbatim>\<open>k\<close> or adds one.
\<close>

fun assign :: "string \<Rightarrow> string \<Rightarrow> (string \<times> string) list \<Rightarrow> (string \<times> string) list" where
  "assign k v [] = [(k, v)]"
| "assign k v (e # es) = (if fst e = k then (k, v) # es else e # assign k v es)"

text \<open>The body of the loop of \<^verbatim>\<open>renderProjectResults\<close>, for one result.\<close>

definition renderProjectResults_body ::
  "MarkdownRenderer \<Rightarrow> CommonData \<Rightarrow> ProjectResult \<Rightarrow>
   (string \<times> string) list \<times> world \<Rightarrow> (string \<times> string) list \<times> world" where
  "renderProjectResults_body m common result st =
     (let results = fst st; w = snd st in
      if ProjectResult.Error result \<noteq> None then
        (assign (Path result)
           (renderTemplate errTmpl
              (VStruct [(''Command'', VString (Command common)),
                        (''Error'', VString (the (ProjectResult.Error result)))]))
           results, w)
      else if ProjectResult.Failure result \<noteq> [] then
        (assign (Path result)
           (renderTemplate failureTmpl
              (VStruct [(''Command'', VString (Command common)),
                        (''Failure'', VString (ProjectResult.Failure result))]))
           results, w)
      else if PlanSuccess result \<noteq> None then
        (let p = the (PlanSuccess result);
             key = LockKey (heap w p);
             w' = w\<lparr>heap := (heap w)(p := (heap w p)\<lparr>LockURL := LockURLBuilder m key\<rparr>),
                    calls := calls w @ [key]\<rparr>
         in (assign (Path result)
               (renderTemplate planSuccessTmpl (PlanSuccess_val (heap w' p)))
               results, w'))
      else if ApplySuccess result \<noteq> [] then
        (assign (Path result)
           (renderTemplate applySuccessTmpl
              (VStruct [(''Output'', VString (ApplySuccess result))]))
           results, w)
      else
        (assign (Path result) ''Found no template. This is a bug!'' results, w))"

fun renderProjectResults_loop ::
  "MarkdownRenderer \<Rightarrow> CommonData \<Rightarrow> ProjectResult list \<Rightarrow>
   (string \<times> string) list \<times> world \<Rightarrow> (string \<times> string) list \<times> world" where
  "renderProjectResults_loop m common [] st = st"
| "renderProjectResults_loop m common (result # pathResults) st =
     renderProjectResults_loop m common pathResults (renderProjectResults_body m common result st)"

definition renderProjectResults ::
  "MarkdownRenderer \<Rightarrow> ProjectResult list \<Rightarrow> CommonData \<Rightarrow> world \<Rightarrow> string \<times> world" where
  "renderProjectResults m pathResults common w =
     (let st = renderProjectResults_loop m common pathResults ([], w);
          results = fst st;
          tmpl = (if length results = 1 then singleProjectTmpl else multiProjectTmpl)
      in (renderTemplate tmpl (ResultData results common), snd st))"

definition Render ::
  "MarkdownRenderer \<Rightarrow> CommandResponse \<Rightarrow> CommandName \<Rightarrow> string \<Rightarrow> bool \<Rightarrow> world \<Rightarrow>
   string \<times> world" where
  "Render m res cmdName log verbose w =
     (let commandStr = Title (String cmdName);
          common = \<lparr>Command = commandStr, Verbose = verbose, Log = log\<rparr>
      in if CommandResponse.Error res \<noteq> None then
           (renderTemplate errWithLogTmpl (ErrData (the (CommandResponse.Error res)) common), w)
         else if CommandResponse.Failure res \<noteq> [] then
           (renderTemplate failureWithLogTmpl
              (FailureData (CommandResponse.Failure res) common), w)
         else renderProjectResults m (ProjectResults res) common w)"

subsection \<open>A renderer whose builder is not set\<close>

text \<open>
  The field \<^verbatim>\<open>LockURLBuilder\<close> of a \<^verbatim>\<open>MarkdownRenderer\<close> is a function value: it is
  \<^verbatim>\<open>nil\<close> until the caller sets it, and calling a \<^verbatim>\<open>nil\<close> function panics. The
  functions above are those of a renderer whose builder is set. The functions below are
  the same functions, line by line, for a renderer whose builder may be \<^verbatim>\<open>nil\<close>: a call
  returns its result or panics, and the panic passes through every caller. A builder that
  is set is taken to return.
\<close>

datatype panic = NilFunctionCall

record GoMarkdownRenderer =
  GoLockURLBuilder :: "(string \<Rightarrow> string) option"

definition renderProjectResults_body_or_panic ::
  "GoMarkdownRenderer \<Rightarrow> CommonData \<Rightarrow> ProjectResult \<Rightarrow>
   (string \<times> string) list \<times> world \<Rightarrow> panic + (string \<times> string) list \<times> world" where
  "renderProjectResults_body_or_panic m common result st =
     (let results = fst st; w = snd st in
      if ProjectResult.Error result \<noteq> None then
        Inr (assign (Path result)
           (renderTemplate errTmpl
              (VStruct [(''Command'', VString (Command common)),
                        (''Error'', VString (the (ProjectResult.Error result)))]))
           results, w)
      else if ProjectResult.Failure result \<noteq> [] then
        Inr (assign (Path result)
           (renderTemplate failureTmpl
              (VStruct [(''Command'', VString (Command common)),
                        (''Failure'', VString (ProjectResult.Failure result))]))
           results, w)
      else if PlanSuccess result \<noteq> None then
        (if GoLockURLBuilder m = None then Inl NilFunctionCall
         else
           (let p = the (PlanSuccess result);
                key = LockKey (heap w p);
                w' = w\<lparr>heap := (heap w)
                         (p := (heap w p)\<lparr>LockURL := the (GoLockURLBuilder m) key\<rparr>),
                       calls := calls w @ [key]\<rparr>
            in Inr (assign (Path result)
                  (renderTemplate planSuccessTmpl (PlanSuccess_val (heap w' p)))
                  results, w')))
      else if ApplySuccess result \<noteq> [] then
        Inr (assign (Path result)
           (renderTemplate applySuccessTmpl
              (VStruct [(''Output'', VString (ApplySuccess result))]))
           results, w)
      else
        Inr (assign (Path result) ''Found no template. This is a bug!'' results, w))"

fun renderProjectResults_loop_or_panic ::
  "GoMarkdownRenderer \<Rightarrow> CommonData \<Rightarrow> ProjectResult list \<Rightarrow>
   (string \<times> string) list \<times> world \<Rightarrow> panic + (string \<times> string) list \<times> world" where
  "renderProjectResults_loop_or_panic m common [] st = Inr st"
| "renderProjectResults_loop_or_panic m common (result # pathResults) st =
     (case renderProjectResults_body_or_panic m common result st of
        Inl p \<Rightarrow> Inl p
      | Inr st' \<Rightarrow> renderProjectResults_loop_or_panic m common pathResults st')"

definition renderProjectResults_or_panic ::
  "GoMarkdownRenderer \<Rightarrow> ProjectResult list \<Rightarrow> CommonData \<Rightarrow> world \<Rightarrow>
   panic + string \<times> world" where
  "renderProjectResults_or_panic m pathResults common w =
     (case renderProjectResults_loop_or_panic m common pathResults ([], w) of
        Inl p \<Rightarrow> Inl p
      | Inr st \<Rightarrow>
          (let results = fst st;
               tmpl = (if length results = 1 then singleProjectTmpl else multiProjectTmpl)
           in Inr (renderTemplate tmpl (ResultData results common), snd st)))"

definition Render_or_panic ::
  "GoMarkdownRenderer \<Rightarrow> CommandResponse \<Rightarrow> CommandName \<Rightarrow> string \<Rightarrow> bool \<Rightarrow> world \<Rightarrow>
   panic + string \<times> world" where
  "Render_or_panic m res cmdName log verbose w =
     (let commandStr = Title (String cmdName);
          common = \<lparr>Command = commandStr, Verbose = verbose, Log = log\<rparr>
      in if CommandResponse.Error res \<noteq> None then
           Inr (renderTemplate errWithLogTmpl (ErrData (the (CommandResponse.Error res)) common), w)
         else if CommandResponse.Failure res \<noteq> [] then
           Inr (renderTemplate failureWithLogTmpl
              (FailureData (CommandResponse.Failure res) common), w)
         else renderProjectResults_or_panic m (ProjectResults res) common w)"

subsection \<open>The documents the specification describes\<close>

text \<open>
  The pieces of a rendered document, written out as the specification words them. They
  are the right-hand sides of the theorems below and take no part in the model above.
  The collapsible log block wraps the log text in a fenced code block; the log section
  that ends every document is that block, when the output is verbose, and a line break.
\<close>

definition logBlock :: "string \<Rightarrow> string" where
  "logBlock log =
     ''\<newline><details><summary>Log</summary>\<newline>  <p>\<newline>\<newline>```\<newline>'' @ log @ ''```\<newline></p></details>''"

definition logSection :: "bool \<Rightarrow> string \<Rightarrow> string" where
  "logSection verbose log = (if verbose then logBlock log else []) @ ''\<newline>''"

definition errorFragment :: "string \<Rightarrow> string \<Rightarrow> string" where
  "errorFragment label msg = ''**'' @ label @ '' Error**\<newline>```\<newline>'' @ msg @ ''\<newline>```\<newline>''"

definition failureFragment :: "string \<Rightarrow> string \<Rightarrow> string" where
  "failureFragment label msg = ''**'' @ label @ '' Failed**: '' @ msg @ ''\<newline>''"

definition planFragment :: "string \<Rightarrow> string \<Rightarrow> string" where
  "planFragment diff url =
     ''```diff\<newline>'' @ diff @ ''\<newline>```\<newline>\<newline>* To **discard** this plan click [here]('' @ url @ '').''"

definition applyFragment :: "string \<Rightarrow> string" where
  "applyFragment out = ''```diff\<newline>'' @ out @ ''\<newline>```''"

definition noTemplate :: string where
  "noTemplate = ''Found no template. This is a bug!''"

text \<open>
  A result is rendered as a plan success when it carries no error, no failure and a
  \<^verbatim>\<open>PlanSuccess\<close>: the variant of the specification's tagged union.
\<close>

definition isPlanSuccess :: "ProjectResult \<Rightarrow> bool" where
  "isPlanSuccess r =
     (ProjectResult.Error r = None \<and> ProjectResult.Failure r = [] \<and> PlanSuccess r \<noteq> None)"

text \<open>The fragment of one project, by the variant of its result, in a given heap.\<close>

definition fragment ::
  "MarkdownRenderer \<Rightarrow> string \<Rightarrow> (addr \<Rightarrow> PlanSuccess) \<Rightarrow> ProjectResult \<Rightarrow> string" where
  "fragment m label h r =
     (if ProjectResult.Error r \<noteq> None then errorFragment label (the (ProjectResult.Error r))
      else if ProjectResult.Failure r \<noteq> [] then failureFragment label (ProjectResult.Failure r)
      else if PlanSuccess r \<noteq> None then
        planFragment (TerraformOutput (h (the (PlanSuccess r))))
          (LockURLBuilder m (LockKey (h (the (PlanSuccess r)))))
      else if ApplySuccess r \<noteq> [] then applyFragment (ApplySuccess r)
      else noTemplate)"

definition banner :: "string \<Rightarrow> nat \<Rightarrow> string" where
  "banner label n = ''Ran '' @ label @ '' in '' @ digits n @ '' directories:\<newline>''"

definition bullet :: "string \<Rightarrow> string" where
  "bullet path = '' * `'' @ path @ ''`\<newline>''"

definition projectSection :: "string \<Rightarrow> string \<Rightarrow> string" where
  "projectSection path frag = ''## '' @ path @ ''/\<newline>'' @ frag @ ''\<newline>---\<newline>''"

text \<open>
  The addresses of the plans that a sequence of results has rendered, in order, and a
  heap in which the lock URL of each of them has been set from its lock key.
\<close>

definition planAddrs :: "ProjectResult list \<Rightarrow> addr list" where
  "planAddrs rs = map (\<lambda>r. the (PlanSuccess r)) (filter isPlanSuccess rs)"

definition withLockURLs ::
  "MarkdownRenderer \<Rightarrow> (addr \<Rightarrow> PlanSuccess) \<Rightarrow> addr list \<Rightarrow> addr \<Rightarrow> PlanSuccess" where
  "withLockURLs m h as a =
     (if a \<in> set as then (h a)\<lparr>LockURL := LockURLBuilder m (LockKey (h a))\<rparr> else h a)"

subsection \<open>An example run\<close>

text \<open>
  The scenario of the specification: two projects \<^verbatim>\<open>a\<close> and \<^verbatim>\<open>b\<close> with plans under the
  lock keys \<^verbatim>\<open>L1\<close> and \<^verbatim>\<open>L2\<close>, and a builder that appends the key to \<^verbatim>\<open>http://x/\<close>.
\<close>

definition exampleBuilder :: "string \<Rightarrow> string" where
  "exampleBuilder k = ''http://x/'' @ k"

definition exampleRenderer :: MarkdownRenderer where
  "exampleRenderer = \<lparr>LockURLBuilder = exampleBuilder\<rparr>"

definition exampleGoRenderer :: GoMarkdownRenderer where
  "exampleGoRenderer = \<lparr>GoLockURLBuilder = Some exampleBuilder\<rparr>"

definition nilRenderer :: GoMarkdownRenderer where
  "nilRenderer = \<lparr>GoLockURLBuilder = None\<rparr>"

definition examplePlans :: "addr \<Rightarrow> PlanSuccess" where
  "examplePlans a =
     (if a = 0 then \<lparr>TerraformOutput = ''+ resource'', LockKey = ''L1'', LockURL = []\<rparr>
      else \<lparr>TerraformOutput = ''- resource'', LockKey = ''L2'', LockURL = []\<rparr>)"

definition exampleWorld :: world where
  "exampleWorld = \<lparr>heap = examplePlans, calls = []\<rparr>"

definition planResult :: "string \<Rightarrow> addr \<Rightarrow> ProjectResult" where
  "planResult path p =
     \<lparr>Path = path, Error = None, Failure = [], PlanSuccess = Some p, ApplySuccess = []\<rparr>"

definition applyResult :: "string \<Rightarrow> string \<Rightarrow> ProjectResult" where
  "applyResult path out =
     \<lparr>Path = path, Error = None, Failure = [], PlanSuccess = None, ApplySuccess = out\<rparr>"


definition projectResponse :: "ProjectResult list \<Rightarrow> CommandResponse" where
  "projectResponse rs = \<lparr>Error = None, Failure = [], ProjectResults = rs\<rparr>"

definition errorResponse :: "string \<Rightarrow> CommandResponse" where
  "errorResponse msg = \<lparr>Error = Some msg, Failure = [], ProjectResults = []\<rparr>"

definition failureResponse :: "string \<Rightarrow> CommandResponse" where
  "failureResponse msg = \<lparr>Error = None, Failure = msg, ProjectResults = []\<rparr>"

section \<open>The trees of the templates\<close>

lemma singleProjectTmpl_tree:
  "singleProjectTmpl =
     [RangeNode [''$result''] (FieldNode ''Results'') [ActionNode (VariableNode ''$result'')],
      TextNode ''\<newline>'',
      IfNode (FieldNode ''Verbose'')
        [TextNode ''\<newline><details><summary>Log</summary>\<newline>  <p>\<newline>\<newline>```\<newline>'',
         ActionNode (FieldNode ''Log''),
         TextNode ''```\<newline></p></details>''],
      TextNode ''\<newline>'']"
  by code_simp

lemma multiProjectTmpl_tree:
  "multiProjectTmpl =
     [TextNode ''Ran '', ActionNode (FieldNode ''Command''), TextNode '' in '',
      ActionNode (LenCommand (FieldNode ''Results'')), TextNode '' directories:\<newline>'',
      RangeNode [''$path'', ''$result''] (FieldNode ''Results'')
        [TextNode '' * `'', ActionNode (VariableNode ''$path''), TextNode ''`\<newline>''],
      TextNode ''\<newline>'',
      RangeNode [''$path'', ''$result''] (FieldNode ''Results'')
        [TextNode ''## '', ActionNode (VariableNode ''$path''), TextNode ''/\<newline>'',
         ActionNode (VariableNode ''$result''), TextNode ''\<newline>---\<newline>''],
      IfNode (FieldNode ''Verbose'')
        [TextNode ''\<newline><details><summary>Log</summary>\<newline>  <p>\<newline>\<newline>```\<newline>'',
         ActionNode (FieldNode ''Log''),
         TextNode ''```\<newline></p></details>''],
      TextNode ''\<newline>'']"
  by code_simp

lemma planSuccessTmpl_tree:
  "planSuccessTmpl =
     [TextNode ''```diff\<newline>'', ActionNode (FieldNode ''TerraformOutput''),
      TextNode ''\<newline>```\<newline>\<newline>* To **discard** this plan click [here]('',
      ActionNode (FieldNode ''LockURL''), TextNode '').'']"
  by code_simp

lemma applySuccessTmpl_tree:
  "applySuccessTmpl =
     [TextNode ''```diff\<newline>'', ActionNode (FieldNode ''Output''), TextNode ''\<newline>```'']"
  by code_simp

lemma errTmpl_tree:
  "errTmpl =
     [TextNode ''**'', ActionNode (FieldNode ''Command''), TextNode '' Error**\<newline>```\<newline>'',
      ActionNode (FieldNode ''Error''), TextNode ''\<newline>```\<newline>'']"
  by code_simp

lemma errWithLogTmpl_tree:
  "errWithLogTmpl =
     [TextNode ''**'', ActionNode (FieldNode ''Command''), TextNode '' Error**\<newline>```\<newline>'',
      ActionNode (FieldNode ''Error''), TextNode ''\<newline>```\<newline>'',
      IfNode (FieldNode ''Verbose'')
        [TextNode ''\<newline><details><summary>Log</summary>\<newline>  <p>\<newline>\<newline>```\<newline>'',
         ActionNode (FieldNode ''Log''),
         TextNode ''```\<newline></p></details>''],
      TextNode ''\<newline>'']"
  by code_simp

lemma failureTmpl_tree:
  "failureTmpl =
     [TextNode ''**'', ActionNode (FieldNode ''Command''), TextNode '' Failed**: '',
      ActionNode (FieldNode ''Failure''), TextNode ''\<newline>'']"
  by code_simp

lemma failureWithLogTmpl_tree:
  "failureWithLogTmpl =
     [TextNode ''**'', ActionNode (FieldNode ''Command''), TextNode '' Failed**: '',
      ActionNode (FieldNode ''Failure''), TextNode ''\<newline>'',
      IfNode (FieldNode ''Verbose'')
        [TextNode ''\<newline><details><summary>Log</summary>\<newline>  <p>\<newline>\<newline>```\<newline>'',
         ActionNode (FieldNode ''Log''),
         TextNode ''```\<newline></p></details>''],
      TextNode ''\<newline>'']"
  by code_simp

section \<open>Executing the templates\<close>

lemma sequence_map_Inr: "sequence (map (\<lambda>x. Inr (f x)) xs) = Inr (concat (map f xs))"
  by (induction xs) simp_all

lemma CommonData_field:
  "map_of (CommonData_fields common) ''Command'' = Some (VString (Command common))"
  "map_of (CommonData_fields common) ''Verbose'' = Some (VBool (Verbose common))"
  "map_of (CommonData_fields common) ''Log'' = Some (VString (Log common))"
  "map_of (CommonData_fields common) ''Error'' = None"
  "map_of (CommonData_fields common) ''Failure'' = None"
  "map_of (CommonData_fields common) ''Results'' = None"
  by (simp_all add: CommonData_fields_def)

lemma Execute_errTmpl:
  "Execute errTmpl (VStruct [(''Command'', VString c), (''Error'', VString e)]) =
     Inr (''**'' @ c @ '' Error**\<newline>```\<newline>'' @ e @ ''\<newline>```\<newline>'')"
  by (simp add: Execute_def errTmpl_tree)

lemma Execute_failureTmpl:
  "Execute failureTmpl (VStruct [(''Command'', VString c), (''Failure'', VString f)]) =
     Inr (''**'' @ c @ '' Failed**: '' @ f @ ''\<newline>'')"
  by (simp add: Execute_def failureTmpl_tree)

lemma Execute_planSuccessTmpl:
  "Execute planSuccessTmpl (PlanSuccess_val p) =
     Inr (''```diff\<newline>'' @ TerraformOutput p @
          ''\<newline>```\<newline>\<newline>* To **discard** this plan click [here]('' @ LockURL p @ '').'')"
  by (simp add: Execute_def planSuccessTmpl_tree PlanSuccess_val_def)

lemma Execute_applySuccessTmpl:
  "Execute applySuccessTmpl (VStruct [(''Output'', VString out)]) =
     Inr (''```diff\<newline>'' @ out @ ''\<newline>```'')"
  by (simp add: Execute_def applySuccessTmpl_tree)

lemma Execute_errWithLogTmpl:
  "Execute errWithLogTmpl (ErrData e common) =
     Inr (''**'' @ Command common @ '' Error**\<newline>```\<newline>'' @ e @ ''\<newline>```\<newline>'' @
          logSection (Verbose common) (Log common))"
  by (simp add: Execute_def errWithLogTmpl_tree ErrData_def CommonData_field
      logSection_def logBlock_def)

lemma Execute_failureWithLogTmpl:
  "Execute failureWithLogTmpl (FailureData f common) =
     Inr (''**'' @ Command common @ '' Failed**: '' @ f @ ''\<newline>'' @
          logSection (Verbose common) (Log common))"
  by (simp add: Execute_def failureWithLogTmpl_tree FailureData_def
      CommonData_field logSection_def logBlock_def)

lemma Execute_singleProjectTmpl:
  "Execute singleProjectTmpl (ResultData results common) =
     Inr (concat (map snd (sortedEntries results)) @ ''\<newline>'' @
          logSection (Verbose common) (Log common))"
  by (simp add: Execute_def singleProjectTmpl_tree ResultData_def
      CommonData_field sequence_map_Inr logSection_def logBlock_def)

lemma Execute_multiProjectTmpl:
  "Execute multiProjectTmpl (ResultData results common) =
     Inr (banner (Command common) (length results) @
          concat (map (\<lambda>kv. bullet (fst kv)) (sortedEntries results)) @ ''\<newline>'' @
          concat (map (\<lambda>kv. projectSection (fst kv) (snd kv)) (sortedEntries results)) @
          logSection (Verbose common) (Log common))"
  by (simp add: Execute_def multiProjectTmpl_tree ResultData_def
      CommonData_field sequence_map_Inr logSection_def logBlock_def banner_def bullet_def
      projectSection_def itoa_def)

lemma render_errTmpl:
  "renderTemplate errTmpl (VStruct [(''Command'', VString c), (''Error'', VString e)]) =
     ''**'' @ c @ '' Error**\<newline>```\<newline>'' @ e @ ''\<newline>```\<newline>''"
  by (simp add: renderTemplate_def Execute_errTmpl)

lemma render_failureTmpl:
  "renderTemplate failureTmpl (VStruct [(''Command'', VString c), (''Failure'', VString f)]) =
     ''**'' @ c @ '' Failed**: '' @ f @ ''\<newline>''"
  by (simp add: renderTemplate_def Execute_failureTmpl)

lemma render_planSuccessTmpl:
  "renderTemplate planSuccessTmpl (PlanSuccess_val p) =
     ''```diff\<newline>'' @ TerraformOutput p @
     ''\<newline>```\<newline>\<newline>* To **discard** this plan click [here]('' @ LockURL p @ '').''"
  by (simp add: renderTemplate_def Execute_planSuccessTmpl)

lemma render_applySuccessTmpl:
  "renderTemplate applySuccessTmpl (VStruct [(''Output'', VString out)]) =
     ''```diff\<newline>'' @ out @ ''\<newline>```''"
  by (simp add: renderTemplate_def Execute_applySuccessTmpl)

lemma render_errWithLogTmpl:
  "renderTemplate errWithLogTmpl (ErrData e common) =
     ''**'' @ Command common @ '' Error**\<newline>```\<newline>'' @ e @ ''\<newline>```\<newline>'' @
     logSection (Verbose common) (Log common)"
  by (simp add: renderTemplate_def Execute_errWithLogTmpl)

lemma render_failureWithLogTmpl:
  "renderTemplate failureWithLogTmpl (FailureData f common) =
     ''**'' @ Command common @ '' Failed**: '' @ f @ ''\<newline>'' @
     logSection (Verbose common) (Log common)"
  by (simp add: renderTemplate_def Execute_failureWithLogTmpl)

lemma render_singleProjectTmpl:
  "renderTemplate singleProjectTmpl (ResultData results common) =
     concat (map snd (sortedEntries results)) @ ''\<newline>'' @
     logSection (Verbose common) (Log common)"
  by (simp add: renderTemplate_def Execute_singleProjectTmpl)

lemma render_multiProjectTmpl:
  "renderTemplate multiProjectTmpl (ResultData results common) =
     banner (Command common) (length results) @
     concat (map (\<lambda>kv. bullet (fst kv)) (sortedEntries results)) @ ''\<newline>'' @
     concat (map (\<lambda>kv. projectSection (fst kv) (snd kv)) (sortedEntries results)) @
     logSection (Verbose common) (Log common)"
  by (simp add: renderTemplate_def Execute_multiProjectTmpl)

section \<open>The loop over the project results\<close>

lemma body_eq:
  "renderProjectResults_body m common r (results, w) =
     (assign (Path r) (fragment m (Command common) (heap w) r) results,
      if isPlanSuccess r
      then w\<lparr>heap := withLockURLs m (heap w) [the (PlanSuccess r)],
             calls := calls w @ [LockKey (heap w (the (PlanSuccess r)))]\<rparr>
      else w)"
  by (auto simp add: renderProjectResults_body_def fragment_def isPlanSuccess_def Let_def
      render_errTmpl render_failureTmpl render_planSuccessTmpl render_applySuccessTmpl
      errorFragment_def failureFragment_def planFragment_def applyFragment_def noTemplate_def
      withLockURLs_def fun_eq_iff)

lemma fragment_heap_cong:
  "(\<And>a. TerraformOutput (h a) = TerraformOutput (h' a)) \<Longrightarrow> (\<And>a. LockKey (h a) = LockKey (h' a)) \<Longrightarrow>
   fragment m label h r = fragment m label h' r"
  by (simp add: fragment_def)

lemma withLockURLs_keeps [simp]:
  "TerraformOutput (withLockURLs m h as a) = TerraformOutput (h a)"
  "LockKey (withLockURLs m h as a) = LockKey (h a)"
  by (simp_all add: withLockURLs_def)

lemma withLockURLs_twice:
  "withLockURLs m (withLockURLs m h as) bs = withLockURLs m h (as @ bs)"
  by (auto simp add: withLockURLs_def fun_eq_iff)

lemma withLockURLs_Nil [simp]: "withLockURLs m h [] = h"
  by (simp add: withLockURLs_def fun_eq_iff)

lemma planAddrs_Cons:
  "planAddrs (r # rs) = (if isPlanSuccess r then the (PlanSuccess r) # planAddrs rs else planAddrs rs)"
  by (simp add: planAddrs_def)

lemma loop_eq:
  "renderProjectResults_loop m common rs (results, w) =
     (foldl (\<lambda>acc r. assign (Path r) (fragment m (Command common) (heap w) r) acc) results rs,
      w\<lparr>heap := withLockURLs m (heap w) (planAddrs rs),
        calls := calls w @ map (\<lambda>a. LockKey (heap w a)) (planAddrs rs)\<rparr>)"
proof (induction rs arbitrary: results w)
  case Nil
  show ?case by (simp add: planAddrs_def)
next
  case (Cons r rs)
  show ?case
  proof (cases "isPlanSuccess r")
    case True
    let ?w = "w\<lparr>heap := withLockURLs m (heap w) [the (PlanSuccess r)],
             calls := calls w @ [LockKey (heap w (the (PlanSuccess r)))]\<rparr>"
    have frag: "fragment m label (withLockURLs m (heap w) as) r' = fragment m label (heap w) r'"
      for r' label as
      by (rule fragment_heap_cong) simp_all
    show ?thesis
      by (simp add: body_eq True Cons.IH frag planAddrs_Cons withLockURLs_twice)
  next
    case False
    then show ?thesis
      by (simp add: body_eq Cons.IH planAddrs_Cons)
  qed
qed

lemma assign_fresh: "k \<notin> fst ` set es \<Longrightarrow> assign k v es = es @ [(k, v)]"
  by (induction es) auto

lemma foldl_assign_distinct:
  "distinct (map key rs) \<Longrightarrow> set (map key rs) \<inter> fst ` set acc = {} \<Longrightarrow>
   foldl (\<lambda>acc r. assign (key r) (f r) acc) acc rs = acc @ map (\<lambda>r. (key r, f r)) rs"
proof (induction rs arbitrary: acc)
  case Nil
  show ?case by simp
next
  case (Cons r rs)
  have fresh: "key r \<notin> fst ` set acc" using Cons.prems(2) by auto
  have "set (map key rs) \<inter> fst ` set (acc @ [(key r, f r)]) = {}"
    using Cons.prems by auto
  with Cons.IH [of "acc @ [(key r, f r)]"] Cons.prems(1) show ?case
    by (simp add: assign_fresh [OF fresh])
qed

lemma insort_key_map_entry:
  "insort_key fst (key r, f r) (map (\<lambda>r. (key r, f r)) rs) =
     map (\<lambda>r. (key r, f r)) (insort_key key r rs)"
  by (induction rs) simp_all

lemma sortedEntries_map:
  "sortedEntries (map (\<lambda>r. (key r, f r)) rs) = map (\<lambda>r. (key r, f r)) (sort_key key rs)"
  unfolding sortedEntries_def by (induction rs) (simp_all add: insort_key_map_entry)

lemma sortedEntries_perm:
  assumes "mset xs = mset ys" "distinct (map fst xs)"
  shows "sortedEntries xs = sortedEntries ys"
  unfolding sortedEntries_def
proof (rule sort_key_eq_sort_key)
  show "mset xs = mset ys" by (rule assms(1))
  show "inj_on fst (set xs)" using assms(2) by (simp add: distinct_map)
qed

section \<open>What a call of Render returns\<close>

lemma Title_plan: "Title ''plan'' = ''Plan''"
  by code_simp

lemma Title_apply: "Title ''apply'' = ''Apply''"
  by code_simp

lemma digits_0: "digits 0 = ''0''"
  by code_simp

lemma digits_2: "digits 2 = ''2''"
  by code_simp

lemma renderProjectResults_eq:
  "renderProjectResults m rs common w =
     (let results = foldl (\<lambda>acc r. assign (Path r) (fragment m (Command common) (heap w) r) acc) [] rs
      in (renderTemplate (if length results = 1 then singleProjectTmpl else multiProjectTmpl)
            (ResultData results common),
          w\<lparr>heap := withLockURLs m (heap w) (planAddrs rs),
            calls := calls w @ map (\<lambda>a. LockKey (heap w a)) (planAddrs rs)\<rparr>))"
  by (simp add: renderProjectResults_def loop_eq Let_def)

lemma results_distinct:
  "distinct (map Path rs) \<Longrightarrow>
   foldl (\<lambda>acc r. assign (Path r) (f r) acc) [] rs = map (\<lambda>r. (Path r, f r)) rs"
  using foldl_assign_distinct [of Path rs "[]" f] by simp

lemma Render_projects:
  assumes "CommandResponse.Error res = None" "CommandResponse.Failure res = []"
  shows "Render m res cmdName log verbose w =
     renderProjectResults m (ProjectResults res)
       \<lparr>Command = Title (String cmdName), Verbose = verbose, Log = log\<rparr> w"
  using assms by (simp add: Render_def)

text \<open>
  Claim C2. When the response carries an error with the message \<open>msg\<close>, whatever the
  command, the log and the rest of the response, \<^verbatim>\<open>Render\<close> returns the heading
  \<^verbatim>\<open>**Label Error**\<close> with the title-cased command name as the label, the message in a
  fenced block, then the collapsible log block around the log text exactly when the
  output is verbose, and a final line break. The world is left as it was.
\<close>

theorem Render_top_level_error:
  "CommandResponse.Error res = Some msg \<Longrightarrow>
   Render m res cmdName log verbose w =
     (''**'' @ Title (String cmdName) @ '' Error**\<newline>```\<newline>'' @ msg @ ''\<newline>```\<newline>'' @
      (if verbose then logBlock log else []) @ ''\<newline>'', w)"
  by (simp add: Render_def render_errWithLogTmpl logSection_def)

theorem Render_top_level_error_witness:
  "CommandResponse.Error (errorResponse ''boom'') = Some ''boom'' \<and>
   Render exampleRenderer (errorResponse ''boom'') (CommandName ''plan'') ''log'' True exampleWorld =
     (''**Plan Error**\<newline>```\<newline>boom\<newline>```\<newline>\<newline><details><summary>Log</summary>\<newline>  <p>\<newline>\<newline>```\<newline>log```\<newline></p></details>\<newline>'',
      exampleWorld) \<and>
   Render exampleRenderer (errorResponse ''boom'') (CommandName ''plan'') ''log'' False exampleWorld =
     (''**Plan Error**\<newline>```\<newline>boom\<newline>```\<newline>\<newline>'', exampleWorld)"
  using Render_top_level_error [of "errorResponse ''boom''" "''boom''" exampleRenderer
      "CommandName ''plan''" "''log''" True exampleWorld]
    Render_top_level_error [of "errorResponse ''boom''" "''boom''" exampleRenderer
      "CommandName ''plan''" "''log''" False exampleWorld]
  by (simp add: errorResponse_def logBlock_def Title_plan)

text \<open>
  Claim C3. When the response carries no error and a failure \<open>msg\<close> that is not empty,
  \<^verbatim>\<open>Render\<close> returns the line \<^verbatim>\<open>**Label Failed**: msg\<close>, then the log block exactly when
  the output is verbose, a final line break, and nothing else.
\<close>

theorem Render_top_level_failure:
  "CommandResponse.Error res = None \<Longrightarrow> CommandResponse.Failure res = msg \<Longrightarrow> msg \<noteq> [] \<Longrightarrow>
   Render m res cmdName log verbose w =
     (''**'' @ Title (String cmdName) @ '' Failed**: '' @ msg @ ''\<newline>'' @
      (if verbose then logBlock log else []) @ ''\<newline>'', w)"
  by (simp add: Render_def render_failureWithLogTmpl logSection_def)

theorem Render_top_level_failure_witness:
  "CommandResponse.Error (failureResponse ''no plan'') = None \<and>
   CommandResponse.Failure (failureResponse ''no plan'') = ''no plan'' \<and> ''no plan'' \<noteq> [] \<and>
   Render exampleRenderer (failureResponse ''no plan'') (CommandName ''apply'') ''log'' True exampleWorld =
     (''**Apply Failed**: no plan\<newline>\<newline><details><summary>Log</summary>\<newline>  <p>\<newline>\<newline>```\<newline>log```\<newline></p></details>\<newline>'',
      exampleWorld) \<and>
   Render exampleRenderer (failureResponse ''no plan'') (CommandName ''apply'') ''log'' False exampleWorld =
     (''**Apply Failed**: no plan\<newline>\<newline>'', exampleWorld)"
  using Render_top_level_failure [of "failureResponse ''no plan''" "''no plan''" exampleRenderer
      "CommandName ''apply''" "''log''" True exampleWorld]
    Render_top_level_failure [of "failureResponse ''no plan''" "''no plan''" exampleRenderer
      "CommandName ''apply''" "''log''" False exampleWorld]
  by (simp add: failureResponse_def logBlock_def Title_apply)

text \<open>
  Claim C10. When the response carries no error, no failure and no project results, the
  map of fragments is empty, its length is not one, and \<^verbatim>\<open>Render\<close> executes the template
  for several projects: the document is the banner with the count 0, no bullet and no
  header, an empty line, then the log block exactly when the output is verbose and a
  final line break.
\<close>

theorem Render_no_projects:
  "CommandResponse.Error res = None \<Longrightarrow> CommandResponse.Failure res = [] \<Longrightarrow>
   ProjectResults res = [] \<Longrightarrow>
   Render m res cmdName log verbose w =
     (''Ran '' @ Title (String cmdName) @ '' in 0 directories:\<newline>'' @ ''\<newline>'' @
      (if verbose then logBlock log else []) @ ''\<newline>'', w) \<and>
   Render m res cmdName log verbose w =
     (renderTemplate multiProjectTmpl
        (ResultData [] \<lparr>Command = Title (String cmdName), Verbose = verbose, Log = log\<rparr>), w)"
  by (simp add: Render_projects renderProjectResults_eq render_multiProjectTmpl banner_def
      sortedEntries_def logSection_def planAddrs_def digits_0)

theorem Render_no_projects_witness:
  "CommandResponse.Error (projectResponse []) = None \<and>
   CommandResponse.Failure (projectResponse []) = [] \<and>
   ProjectResults (projectResponse []) = [] \<and>
   Render exampleRenderer (projectResponse []) (CommandName ''plan'') ''log'' False exampleWorld =
     (''Ran Plan in 0 directories:\<newline>\<newline>\<newline>'', exampleWorld)"
  using Render_no_projects [of "projectResponse []" exampleRenderer "CommandName ''plan''" "''log''"
      False exampleWorld]
  by (simp add: projectResponse_def Title_plan)

lemma keys_assign: "fst ` set (assign k v es) = insert k (fst ` set es)"
  by (induction es) auto

lemma assign_distinct: "distinct (map fst es) \<Longrightarrow> distinct (map fst (assign k v es))"
  by (induction es) (auto simp add: keys_assign)

lemma Render_one:
  assumes "CommandResponse.Error res = None" "CommandResponse.Failure res = []"
    and "ProjectResults res = [r]"
  shows "fst (Render m res cmdName log verbose w) =
     fragment m (Title (String cmdName)) (heap w) r @ ''\<newline>'' @ logSection verbose log"
  using assms
  by (simp add: Render_projects renderProjectResults_eq render_singleProjectTmpl sortedEntries_def)

lemma Render_many:
  assumes "CommandResponse.Error res = None" "CommandResponse.Failure res = []"
    and "distinct (map Path (ProjectResults res))" "length (ProjectResults res) \<noteq> 1"
  shows "fst (Render m res cmdName log verbose w) =
     banner (Title (String cmdName)) (length (ProjectResults res)) @
     concat (map (\<lambda>r. bullet (Path r)) (sort_key Path (ProjectResults res))) @ ''\<newline>'' @
     concat (map (\<lambda>r. projectSection (Path r) (fragment m (Title (String cmdName)) (heap w) r))
       (sort_key Path (ProjectResults res))) @
     logSection verbose log"
  using assms
  by (simp add: Render_projects renderProjectResults_eq render_multiProjectTmpl results_distinct
      sortedEntries_map comp_def)

text \<open>
  Claim C4. When the response carries no error, no failure and exactly one project
  result, the document has neither the banner \<^verbatim>\<open>Ran ... in\<close> nor a header
  \<^verbatim>\<open>## path/\<close>: it is the fragment of that project, a line break, then the log block
  exactly when the output is verbose and a final line break.
\<close>

theorem Render_single_project:
  "CommandResponse.Error res = None \<Longrightarrow> CommandResponse.Failure res = [] \<Longrightarrow>
   ProjectResults res = [r] \<Longrightarrow>
   fst (Render m res cmdName log verbose w) =
     fragment m (Title (String cmdName)) (heap w) r @ ''\<newline>'' @
     (if verbose then logBlock log else []) @ ''\<newline>''"
  by (simp add: Render_one logSection_def)

theorem Render_single_project_witness:
  "CommandResponse.Error (projectResponse [applyResult ''proj1'' ''Apply complete!'']) = None \<and>
   CommandResponse.Failure (projectResponse [applyResult ''proj1'' ''Apply complete!'']) = [] \<and>
   ProjectResults (projectResponse [applyResult ''proj1'' ''Apply complete!'']) =
     [applyResult ''proj1'' ''Apply complete!''] \<and>
   fst (Render exampleRenderer (projectResponse [applyResult ''proj1'' ''Apply complete!''])
          (CommandName ''apply'') ''log'' False exampleWorld) =
     ''```diff\<newline>Apply complete!\<newline>```\<newline>\<newline>''"
  using Render_single_project [of "projectResponse [applyResult ''proj1'' ''Apply complete!'']"
      "applyResult ''proj1'' ''Apply complete!''" exampleRenderer "CommandName ''apply''" "''log''"
      False exampleWorld]
  by (simp add: projectResponse_def applyResult_def fragment_def applyFragment_def)

text \<open>
  Claim C5. When the response carries no error, no failure and \<open>N > 1\<close> project results
  with distinct paths, the document is the banner with the label and the count \<open>N\<close>,
  one bullet for each path, an empty line, then for each path the header \<^verbatim>\<open>## path/\<close>,
  the fragment of that project and a horizontal rule, and at the end the log section.
  Bullets and sections come in the sorted order of the paths, which is a rearrangement of
  the \<open>N\<close> results.
\<close>

theorem Render_several_projects:
  assumes "CommandResponse.Error res = None" and "CommandResponse.Failure res = []"
    and "distinct (map Path (ProjectResults res))"
    and "length (ProjectResults res) = N" and "1 < N"
  shows "fst (Render m res cmdName log verbose w) =
     ''Ran '' @ Title (String cmdName) @ '' in '' @ digits N @ '' directories:\<newline>'' @
     concat (map (\<lambda>r. '' * `'' @ Path r @ ''`\<newline>'') (sort_key Path (ProjectResults res))) @
     ''\<newline>'' @
     concat (map (\<lambda>r. ''## '' @ Path r @ ''/\<newline>'' @
                      fragment m (Title (String cmdName)) (heap w) r @ ''\<newline>---\<newline>'')
       (sort_key Path (ProjectResults res))) @
     (if verbose then logBlock log else []) @ ''\<newline>'' \<and>
     mset (sort_key Path (ProjectResults res)) = mset (ProjectResults res) \<and>
     length (sort_key Path (ProjectResults res)) = N"
proof -
  have "length (ProjectResults res) \<noteq> 1" using assms(4,5) by simp
  from Render_many [OF assms(1,2,3) this, of m cmdName log verbose w] assms(4)
  show ?thesis
    by (simp add: banner_def bullet_def projectSection_def logSection_def)
qed

lemma exampleFragments:
  "fragment exampleRenderer label examplePlans (planResult path 0) =
     ''```diff\<newline>+ resource\<newline>```\<newline>\<newline>* To **discard** this plan click [here](http://x/L1).''"
  "fragment exampleRenderer label examplePlans (planResult path (Suc 0)) =
     ''```diff\<newline>- resource\<newline>```\<newline>\<newline>* To **discard** this plan click [here](http://x/L2).''"
  by (simp_all add: fragment_def planResult_def planFragment_def examplePlans_def
      exampleRenderer_def exampleBuilder_def)

lemma exampleSorted:
  "sort_key Path [planResult ''b'' 1, planResult ''a'' 0] = [planResult ''a'' 0, planResult ''b'' 1]"
  by (simp add: planResult_def)

theorem Render_several_projects_witness:
  "CommandResponse.Error (projectResponse [planResult ''b'' 1, planResult ''a'' 0]) = None \<and>
   CommandResponse.Failure (projectResponse [planResult ''b'' 1, planResult ''a'' 0]) = [] \<and>
   distinct (map Path (ProjectResults (projectResponse [planResult ''b'' 1, planResult ''a'' 0]))) \<and>
   length (ProjectResults (projectResponse [planResult ''b'' 1, planResult ''a'' 0])) = 2 \<and>
   (1 :: nat) < 2 \<and>
   fst (Render exampleRenderer (projectResponse [planResult ''b'' 1, planResult ''a'' 0])
          (CommandName ''plan'') ''log'' False exampleWorld) =
     ''Ran Plan in 2 directories:\<newline> * `a`\<newline> * `b`\<newline>\<newline>## a/\<newline>```diff\<newline>+ resource\<newline>```\<newline>\<newline>* To **discard** this plan click [here](http://x/L1).\<newline>---\<newline>## b/\<newline>```diff\<newline>- resource\<newline>```\<newline>\<newline>* To **discard** this plan click [here](http://x/L2).\<newline>---\<newline>\<newline>''"
proof -
  let ?res = "projectResponse [planResult ''b'' 1, planResult ''a'' 0]"
  have h: "CommandResponse.Error ?res = None" "CommandResponse.Failure ?res = []"
    "distinct (map Path (ProjectResults ?res))" "length (ProjectResults ?res) = 2" "(1 :: nat) < 2"
    by (simp_all add: projectResponse_def planResult_def)
  have rs: "ProjectResults ?res = [planResult ''b'' 1, planResult ''a'' 0]"
    by (simp add: projectResponse_def)
  from Render_several_projects [OF h, of exampleRenderer "CommandName ''plan''" "''log''" False
      exampleWorld]
  have "fst (Render exampleRenderer ?res (CommandName ''plan'') ''log'' False exampleWorld) =
     ''Ran Plan in 2 directories:\<newline> * `a`\<newline> * `b`\<newline>\<newline>## a/\<newline>```diff\<newline>+ resource\<newline>```\<newline>\<newline>* To **discard** this plan click [here](http://x/L1).\<newline>---\<newline>## b/\<newline>```diff\<newline>- resource\<newline>```\<newline>\<newline>* To **discard** this plan click [here](http://x/L2).\<newline>---\<newline>\<newline>''"
    unfolding rs exampleSorted
    by (simp add: Title_plan digits_2 exampleWorld_def exampleFragments)
       (simp add: planResult_def)
  with h show ?thesis by simp
qed






lemma body_plan:
  "isPlanSuccess r \<Longrightarrow> PlanSuccess r = Some p \<Longrightarrow> LockKey (heap w p) = k \<Longrightarrow>
   fst (renderProjectResults_body m common r (results, w)) =
     assign (Path r) (planFragment (TerraformOutput (heap w p)) (LockURLBuilder m k)) results \<and>
   calls (snd (renderProjectResults_body m common r (results, w))) = calls w @ [k]"
  by (simp add: body_eq fragment_def isPlanSuccess_def)

lemma body_other:
  "\<not> isPlanSuccess r \<Longrightarrow>
   calls (snd (renderProjectResults_body m common r (results, w))) = calls w"
  by (simp add: body_eq)

lemma Render_calls:
  "calls (snd (Render m res cmdName log verbose w)) =
     calls w @
     (if CommandResponse.Error res = None \<and> CommandResponse.Failure res = []
      then map (\<lambda>r. LockKey (heap w (the (PlanSuccess r)))) (filter isPlanSuccess (ProjectResults res))
      else [])"
  by (simp add: Render_def renderProjectResults_eq Let_def planAddrs_def comp_def)

text \<open>
  Claim C6. Rendering a result that is a plan success with the lock key \<open>k\<close> calls the
  lock URL builder once, with \<open>k\<close>, and the URL it returns is the target of the discard
  link of the fragment stored for the project. Rendering any other result does not call
  the builder. Over a whole call of \<^verbatim>\<open>Render\<close> the builder is called once for each
  plan success among the results, in their order, with the lock key of each, and not at
  all when the response carries an error or a failure.
\<close>

theorem LockURLBuilder_calls:
  "(isPlanSuccess r \<longrightarrow> PlanSuccess r = Some p \<longrightarrow> LockKey (heap w p) = k \<longrightarrow>
      fst (renderProjectResults_body m common r (results, w)) =
        assign (Path r)
          (''```diff\<newline>'' @ TerraformOutput (heap w p) @
           ''\<newline>```\<newline>\<newline>* To **discard** this plan click [here]('' @ LockURLBuilder m k @ '').'')
          results \<and>
      calls (snd (renderProjectResults_body m common r (results, w))) = calls w @ [k]) \<and>
   (\<not> isPlanSuccess r \<longrightarrow>
      calls (snd (renderProjectResults_body m common r (results, w))) = calls w) \<and>
   calls (snd (Render m res cmdName log verbose w)) =
     calls w @
     (if CommandResponse.Error res = None \<and> CommandResponse.Failure res = []
      then map (\<lambda>r. LockKey (heap w (the (PlanSuccess r)))) (filter isPlanSuccess (ProjectResults res))
      else [])"
  using body_plan [of r p w k m common results] body_other [of r m common results w]
    Render_calls [of m res cmdName log verbose w]
  by (simp add: planFragment_def)

theorem LockURLBuilder_calls_witness:
  "isPlanSuccess (planResult ''a'' 0) \<and> PlanSuccess (planResult ''a'' 0) = Some 0 \<and>
   LockKey (heap exampleWorld 0) = ''L1'' \<and>
   fst (renderProjectResults_body exampleRenderer \<lparr>Command = ''Plan'', Verbose = False, Log = []\<rparr>
          (planResult ''a'' 0) ([], exampleWorld)) =
     [(''a'', ''```diff\<newline>+ resource\<newline>```\<newline>\<newline>* To **discard** this plan click [here](http://x/L1).'')] \<and>
   calls (snd (renderProjectResults_body exampleRenderer
          \<lparr>Command = ''Plan'', Verbose = False, Log = []\<rparr> (planResult ''a'' 0) ([], exampleWorld))) =
     [''L1''] \<and>
   \<not> isPlanSuccess (applyResult ''c'' ''ok'') \<and>
   calls (snd (renderProjectResults_body exampleRenderer
          \<lparr>Command = ''Plan'', Verbose = False, Log = []\<rparr> (applyResult ''c'' ''ok'')
          ([], exampleWorld))) = [] \<and>
   calls (snd (Render exampleRenderer
          (projectResponse [planResult ''b'' 1, applyResult ''c'' ''ok'', planResult ''a'' 0])
          (CommandName ''plan'') ''log'' False exampleWorld)) = [''L2'', ''L1'']"
  using LockURLBuilder_calls [of "planResult ''a'' 0" 0 exampleWorld "''L1''" exampleRenderer
      "\<lparr>Command = ''Plan'', Verbose = False, Log = []\<rparr>" "[]"
      "projectResponse [planResult ''b'' 1, applyResult ''c'' ''ok'', planResult ''a'' 0]"
      "CommandName ''plan''" "''log''" False]
    LockURLBuilder_calls [of "applyResult ''c'' ''ok''" 0 exampleWorld "''L1''" exampleRenderer
      "\<lparr>Command = ''Plan'', Verbose = False, Log = []\<rparr>" "[]"
      "projectResponse []" "CommandName ''plan''" "''log''" False]
  by (simp add: isPlanSuccess_def planResult_def applyResult_def exampleWorld_def examplePlans_def
      exampleRenderer_def exampleBuilder_def projectResponse_def)

lemma heap_after_Render:
  "heap (snd (Render m res cmdName log verbose w)) =
     (if CommandResponse.Error res = None \<and> CommandResponse.Failure res = []
      then withLockURLs m (heap w) (planAddrs (ProjectResults res)) else heap w)"
  by (simp add: Render_def renderProjectResults_eq Let_def)

lemma Render_output_heap_cong:
  assumes "\<And>a. TerraformOutput (heap w a) = TerraformOutput (heap w' a)"
    and "\<And>a. LockKey (heap w a) = LockKey (heap w' a)"
  shows "fst (Render m res cmdName log verbose w) = fst (Render m res cmdName log verbose w')"
proof -
  have "fragment m label (heap w) r = fragment m label (heap w') r" for label r
    using assms by (rule fragment_heap_cong)
  then show ?thesis
    by (simp add: Render_def renderProjectResults_eq Let_def)
qed

text \<open>
  Claim C8. A second call of \<^verbatim>\<open>Render\<close> with the same renderer and arguments, in the
  world that the first call has left, returns the same document as the first. The order
  in which the map of fragments holds its entries has no influence either: the templates
  for one and for several projects render two maps with the same entries alike.
\<close>

theorem Render_deterministic:
  "fst (Render m res cmdName log verbose (snd (Render m res cmdName log verbose w))) =
     fst (Render m res cmdName log verbose w) \<and>
   (mset results' = mset results \<longrightarrow> distinct (map fst results) \<longrightarrow>
      renderTemplate singleProjectTmpl (ResultData results' common) =
        renderTemplate singleProjectTmpl (ResultData results common) \<and>
      renderTemplate multiProjectTmpl (ResultData results' common) =
        renderTemplate multiProjectTmpl (ResultData results common))"
proof (intro conjI impI)
  show "fst (Render m res cmdName log verbose (snd (Render m res cmdName log verbose w))) =
     fst (Render m res cmdName log verbose w)"
    by (rule Render_output_heap_cong) (simp_all add: heap_after_Render)
next
  assume perm: "mset results' = mset results" and dist: "distinct (map fst results)"
  have sorted: "sortedEntries results = sortedEntries results'"
    using perm dist by (intro sortedEntries_perm) simp_all
  have len: "length results' = length results"
    using perm by (rule mset_eq_length)
  show "renderTemplate singleProjectTmpl (ResultData results' common) =
        renderTemplate singleProjectTmpl (ResultData results common)"
    by (simp add: render_singleProjectTmpl sorted)
  show "renderTemplate multiProjectTmpl (ResultData results' common) =
        renderTemplate multiProjectTmpl (ResultData results common)"
    by (simp add: render_multiProjectTmpl sorted len)
qed

theorem Render_deterministic_witness:
  "fst (Render exampleRenderer (projectResponse [planResult ''b'' 1, planResult ''a'' 0])
          (CommandName ''plan'') ''log'' False
          (snd (Render exampleRenderer (projectResponse [planResult ''b'' 1, planResult ''a'' 0])
                  (CommandName ''plan'') ''log'' False exampleWorld))) =
     fst (Render exampleRenderer (projectResponse [planResult ''b'' 1, planResult ''a'' 0])
          (CommandName ''plan'') ''log'' False exampleWorld) \<and>
   mset [(''a'', ''x''), (''b'', ''y'')] = mset [(''b'', ''y''), (''a'', ''x'')] \<and>
   distinct (map fst [(''b'', ''y''), (''a'', ''x'')]) \<and>
   renderTemplate singleProjectTmpl
       (ResultData [(''a'', ''x''), (''b'', ''y'')] \<lparr>Command = ''Plan'', Verbose = False, Log = []\<rparr>) =
     renderTemplate singleProjectTmpl
       (ResultData [(''b'', ''y''), (''a'', ''x'')] \<lparr>Command = ''Plan'', Verbose = False, Log = []\<rparr>) \<and>
   renderTemplate multiProjectTmpl
       (ResultData [(''a'', ''x''), (''b'', ''y'')] \<lparr>Command = ''Plan'', Verbose = False, Log = []\<rparr>) =
     renderTemplate multiProjectTmpl
       (ResultData [(''b'', ''y''), (''a'', ''x'')] \<lparr>Command = ''Plan'', Verbose = False, Log = []\<rparr>)"
  using Render_deterministic [of exampleRenderer
      "projectResponse [planResult ''b'' 1, planResult ''a'' 0]" "CommandName ''plan''" "''log''"
      False exampleWorld "[(''a'', ''x''), (''b'', ''y'')]" "[(''b'', ''y''), (''a'', ''x'')]"
      "\<lparr>Command = ''Plan'', Verbose = False, Log = []\<rparr>"]
  by simp

text \<open>
  Claim C9 says that a call leaves every field of its inputs unchanged, the
  \<^verbatim>\<open>PlanSuccess\<close> a result points to included. The loop assigns to the field \<^verbatim>\<open>LockURL\<close>
  through the pointer: after rendering the plan of project \<^verbatim>\<open>a\<close> the value at address 0
  is no longer the value the caller passed.
\<close>

theorem Render_writes_LockURL_counterexample:
  "heap (snd (Render exampleRenderer (projectResponse [planResult ''a'' 0]) (CommandName ''plan'')
            ''log'' False exampleWorld)) 0 \<noteq> heap exampleWorld 0"
  by (simp add: heap_after_Render projectResponse_def planAddrs_def isPlanSuccess_def planResult_def
      withLockURLs_def exampleWorld_def examplePlans_def exampleRenderer_def exampleBuilder_def)

text \<open>
  Claim C9, amended. A call of \<^verbatim>\<open>Render\<close> changes neither the output of a plan nor its
  lock key. It writes the lock URL of the plans that it renders, those of the results
  that are plan successes when the response has no error and no failure: the new lock
  URL is what the builder returns for the lock key. Every other lock URL is unchanged.
  The response and the results themselves are passed by value.
\<close>

theorem Render_heap_effect:
  "TerraformOutput (heap (snd (Render m res cmdName log verbose w)) a) = TerraformOutput (heap w a) \<and>
   LockKey (heap (snd (Render m res cmdName log verbose w)) a) = LockKey (heap w a) \<and>
   LockURL (heap (snd (Render m res cmdName log verbose w)) a) =
     (if CommandResponse.Error res = None \<and> CommandResponse.Failure res = [] \<and>
         a \<in> set (map (\<lambda>r. the (PlanSuccess r)) (filter isPlanSuccess (ProjectResults res)))
      then LockURLBuilder m (LockKey (heap w a)) else LockURL (heap w a))"
  by (simp add: heap_after_Render withLockURLs_def planAddrs_def)

theorem Render_heap_effect_witness:
  "TerraformOutput (heap (snd (Render exampleRenderer (projectResponse [planResult ''a'' 0])
      (CommandName ''plan'') ''log'' False exampleWorld)) 0) = ''+ resource'' \<and>
   LockKey (heap (snd (Render exampleRenderer (projectResponse [planResult ''a'' 0])
      (CommandName ''plan'') ''log'' False exampleWorld)) 0) = ''L1'' \<and>
   LockURL (heap (snd (Render exampleRenderer (projectResponse [planResult ''a'' 0])
      (CommandName ''plan'') ''log'' False exampleWorld)) 0) = ''http://x/L1'' \<and>
   LockURL (heap (snd (Render exampleRenderer (projectResponse [planResult ''a'' 0])
      (CommandName ''plan'') ''log'' False exampleWorld)) 1) = []"
  using Render_heap_effect [of exampleRenderer "projectResponse [planResult ''a'' 0]"
      "CommandName ''plan''" "''log''" False exampleWorld 0]
    Render_heap_effect [of exampleRenderer "projectResponse [planResult ''a'' 0]"
      "CommandName ''plan''" "''log''" False exampleWorld 1]
  by (simp add: projectResponse_def planResult_def isPlanSuccess_def exampleWorld_def
      examplePlans_def exampleRenderer_def exampleBuilder_def)

section \<open>Returning, panicking and failing templates\<close>

lemma body_or_panic_set:
  "GoLockURLBuilder m = Some f \<Longrightarrow>
   renderProjectResults_body_or_panic m common r st =
     Inr (renderProjectResults_body \<lparr>LockURLBuilder = f\<rparr> common r st)"
  by (simp add: renderProjectResults_body_or_panic_def renderProjectResults_body_def Let_def)

lemma body_or_panic_nil:
  "GoLockURLBuilder m = None \<Longrightarrow>
   renderProjectResults_body_or_panic m common r st =
     (if isPlanSuccess r then Inl NilFunctionCall
      else Inr (renderProjectResults_body m' common r st))"
  by (simp add: renderProjectResults_body_or_panic_def renderProjectResults_body_def Let_def
      isPlanSuccess_def)

lemma loop_or_panic_set:
  "GoLockURLBuilder m = Some f \<Longrightarrow>
   renderProjectResults_loop_or_panic m common rs st =
     Inr (renderProjectResults_loop \<lparr>LockURLBuilder = f\<rparr> common rs st)"
  by (induction rs arbitrary: st) (simp_all add: body_or_panic_set)

lemma loop_or_panic_nil:
  "GoLockURLBuilder m = None \<Longrightarrow>
   renderProjectResults_loop_or_panic m common rs st =
     (if list_ex isPlanSuccess rs then Inl NilFunctionCall
      else Inr (renderProjectResults_loop m' common rs st))"
  by (induction rs arbitrary: st) (simp_all add: body_or_panic_nil [where m' = m'])

lemma Render_or_panic_set:
  "GoLockURLBuilder m = Some f \<Longrightarrow>
   Render_or_panic m res cmdName log verbose w =
     Inr (Render \<lparr>LockURLBuilder = f\<rparr> res cmdName log verbose w)"
  by (simp add: Render_or_panic_def Render_def renderProjectResults_or_panic_def
      renderProjectResults_def loop_or_panic_set Let_def)

lemma Render_or_panic_nil:
  "GoLockURLBuilder m = None \<Longrightarrow>
   Render_or_panic m res cmdName log verbose w =
     (if CommandResponse.Error res = None \<and> CommandResponse.Failure res = [] \<and>
         list_ex isPlanSuccess (ProjectResults res)
      then Inl NilFunctionCall
      else Inr (Render m' res cmdName log verbose w))"
  by (simp add: Render_or_panic_def Render_def renderProjectResults_or_panic_def
      renderProjectResults_def loop_or_panic_nil [where m' = m'] Let_def)

text \<open>
  Claim C1 says that \<^verbatim>\<open>Render\<close> returns a string for every input. A renderer whose
  \<^verbatim>\<open>LockURLBuilder\<close> is \<^verbatim>\<open>nil\<close> does not return when it renders the plan of project
  \<^verbatim>\<open>a\<close>: the call of the builder in the loop panics.
\<close>

theorem Render_nil_builder_counterexample:
  "Render_or_panic nilRenderer (projectResponse [planResult ''a'' 0]) (CommandName ''plan'') ''log''
     False exampleWorld = Inl NilFunctionCall"
  by (simp add: Render_or_panic_def renderProjectResults_or_panic_def
      renderProjectResults_body_or_panic_def nilRenderer_def projectResponse_def planResult_def)

text \<open>
  Claim C1, amended. A renderer whose \<^verbatim>\<open>LockURLBuilder\<close> is set returns for every
  response, command, log and verbosity, and what it returns is the pair of the document
  and the world that the theorems on \<^verbatim>\<open>Render\<close> describe. A renderer whose builder is
  \<^verbatim>\<open>nil\<close> panics exactly when the response carries no error, no failure and a result
  that is a plan success; otherwise it returns what any renderer returns, the builder
  playing no part. No error of a template reaches the caller: when the execution of a
  template fails, \<^verbatim>\<open>renderTemplate\<close> returns the text
  \<^verbatim>\<open>Failed to render template, this is a bug:\<close> followed by the text of the error, in
  place of the output, and when it succeeds, the output. On the data that the renderer
  hands to them, the eight templates execute without an error.
\<close>

theorem Render_returns:
  "(\<forall>f. GoLockURLBuilder m = Some f \<longrightarrow>
      Render_or_panic m res cmdName log verbose w =
        Inr (Render \<lparr>LockURLBuilder = f\<rparr> res cmdName log verbose w)) \<and>
   (GoLockURLBuilder m = None \<longrightarrow>
      Render_or_panic m res cmdName log verbose w =
        (if CommandResponse.Error res = None \<and> CommandResponse.Failure res = [] \<and>
            list_ex isPlanSuccess (ProjectResults res)
         then Inl NilFunctionCall
         else Inr (Render m' res cmdName log verbose w))) \<and>
   (\<forall>err. Execute tmpl data = Inl err \<longrightarrow>
      renderTemplate tmpl data = ''Failed to render template, this is a bug: '' @ errorText err) \<and>
   (\<forall>buf. Execute tmpl data = Inr buf \<longrightarrow> renderTemplate tmpl data = buf) \<and>
   (\<exists>buf. Execute errWithLogTmpl (ErrData e common) = Inr buf) \<and>
   (\<exists>buf. Execute failureWithLogTmpl (FailureData f' common) = Inr buf) \<and>
   (\<exists>buf. Execute errTmpl (VStruct [(''Command'', VString c), (''Error'', VString e)]) = Inr buf) \<and>
   (\<exists>buf. Execute failureTmpl (VStruct [(''Command'', VString c), (''Failure'', VString f')]) =
      Inr buf) \<and>
   (\<exists>buf. Execute planSuccessTmpl (PlanSuccess_val p) = Inr buf) \<and>
   (\<exists>buf. Execute applySuccessTmpl (VStruct [(''Output'', VString out)]) = Inr buf) \<and>
   (\<exists>buf. Execute singleProjectTmpl (ResultData results common) = Inr buf) \<and>
   (\<exists>buf. Execute multiProjectTmpl (ResultData results common) = Inr buf)"
  using Render_or_panic_set [of m _ res cmdName log verbose w]
    Render_or_panic_nil [of m res cmdName log verbose w m']
  by (simp add: renderTemplate_def Execute_errWithLogTmpl Execute_failureWithLogTmpl
      Execute_errTmpl Execute_failureTmpl Execute_planSuccessTmpl Execute_applySuccessTmpl
      Execute_singleProjectTmpl Execute_multiProjectTmpl)

theorem Render_returns_witness:
  "GoLockURLBuilder exampleGoRenderer = Some exampleBuilder \<and>
   Render_or_panic exampleGoRenderer (projectResponse [planResult ''a'' 0]) (CommandName ''plan'')
       ''log'' False exampleWorld =
     Inr (Render exampleRenderer (projectResponse [planResult ''a'' 0]) (CommandName ''plan'')
       ''log'' False exampleWorld) \<and>
   fst (Render exampleRenderer (projectResponse [planResult ''a'' 0]) (CommandName ''plan'')
       ''log'' False exampleWorld) =
     ''```diff\<newline>+ resource\<newline>```\<newline>\<newline>* To **discard** this plan click [here](http://x/L1).\<newline>\<newline>'' \<and>
   GoLockURLBuilder nilRenderer = None \<and>
   Render_or_panic nilRenderer (projectResponse [planResult ''a'' 0]) (CommandName ''plan'')
       ''log'' False exampleWorld = Inl NilFunctionCall \<and>
   Render_or_panic nilRenderer (projectResponse [applyResult ''proj1'' ''Apply complete!''])
       (CommandName ''apply'') ''log'' False exampleWorld =
     Inr (''```diff\<newline>Apply complete!\<newline>```\<newline>\<newline>'', exampleWorld) \<and>
   Execute errTmpl (VStruct [(''Command'', VString ''Plan'')]) = Inl (CantEvaluateField ''Error'') \<and>
   renderTemplate errTmpl (VStruct [(''Command'', VString ''Plan'')]) =
     ''Failed to render template, this is a bug: '' @ errorText (CantEvaluateField ''Error'') \<and>
   Execute applySuccessTmpl (VStruct [(''Output'', VString ''ok'')]) = Inr ''```diff\<newline>ok\<newline>```'' \<and>
   renderTemplate applySuccessTmpl (VStruct [(''Output'', VString ''ok'')]) = ''```diff\<newline>ok\<newline>```''"
proof -
  let ?plan = "projectResponse [planResult ''a'' 0]"
  let ?apply = "projectResponse [applyResult ''proj1'' ''Apply complete!'']"
  have builder_set: "GoLockURLBuilder exampleGoRenderer = Some exampleBuilder"
    and builder_nil: "GoLockURLBuilder nilRenderer = None"
    by (simp_all add: exampleGoRenderer_def nilRenderer_def)
  have ex: "\<lparr>LockURLBuilder = exampleBuilder\<rparr> = exampleRenderer"
    by (simp add: exampleRenderer_def)
  have plan_hyp: "CommandResponse.Error ?plan = None \<and> CommandResponse.Failure ?plan = [] \<and>
      list_ex isPlanSuccess (ProjectResults ?plan)"
    by (simp add: projectResponse_def planResult_def isPlanSuccess_def)
  have apply_hyp: "\<not> list_ex isPlanSuccess (ProjectResults ?apply)"
    by (simp add: projectResponse_def applyResult_def isPlanSuccess_def)
  have doc_plan: "fst (Render exampleRenderer ?plan (CommandName ''plan'') ''log'' False exampleWorld) =
      ''```diff\<newline>+ resource\<newline>```\<newline>\<newline>* To **discard** this plan click [here](http://x/L1).\<newline>\<newline>''"
    using Render_one [of ?plan "planResult ''a'' 0" exampleRenderer "CommandName ''plan''" "''log''"
        False exampleWorld]
    by (simp add: projectResponse_def exampleWorld_def exampleFragments logSection_def)
  have doc_apply: "Render exampleRenderer ?apply (CommandName ''apply'') ''log'' False exampleWorld =
      (''```diff\<newline>Apply complete!\<newline>```\<newline>\<newline>'', exampleWorld)"
    by (simp add: Render_projects renderProjectResults_eq render_singleProjectTmpl
        sortedEntries_def projectResponse_def applyResult_def fragment_def applyFragment_def
        planAddrs_def isPlanSuccess_def logSection_def)
  have a: "Execute errTmpl (VStruct [(''Command'', VString ''Plan'')]) = Inl (CantEvaluateField ''Error'')"
    by (simp add: Execute_def errTmpl_tree)
  have b: "Execute applySuccessTmpl (VStruct [(''Output'', VString ''ok'')]) = Inr ''```diff\<newline>ok\<newline>```''"
    by (simp add: Execute_def applySuccessTmpl_tree)
  from builder_set ex
    Render_returns [of exampleGoRenderer ?plan "CommandName ''plan''" "''log''" False exampleWorld
      exampleRenderer errTmpl "VStruct [(''Command'', VString ''Plan'')]"]
  have r1: "Render_or_panic exampleGoRenderer ?plan (CommandName ''plan'') ''log'' False exampleWorld =
      Inr (Render exampleRenderer ?plan (CommandName ''plan'') ''log'' False exampleWorld)"
    by simp
  from builder_nil plan_hyp
    Render_returns [of nilRenderer ?plan "CommandName ''plan''" "''log''" False exampleWorld
      exampleRenderer errTmpl "VStruct [(''Command'', VString ''Plan'')]"]
  have r2: "Render_or_panic nilRenderer ?plan (CommandName ''plan'') ''log'' False exampleWorld =
      Inl NilFunctionCall"
    by simp
  from builder_nil apply_hyp doc_apply
    Render_returns [of nilRenderer ?apply "CommandName ''apply''" "''log''" False exampleWorld
      exampleRenderer applySuccessTmpl "VStruct [(''Output'', VString ''ok'')]"]
  have r3: "Render_or_panic nilRenderer ?apply (CommandName ''apply'') ''log'' False exampleWorld =
      Inr (''```diff\<newline>Apply complete!\<newline>```\<newline>\<newline>'', exampleWorld)"
    and r5: "renderTemplate applySuccessTmpl (VStruct [(''Output'', VString ''ok'')]) =
      ''```diff\<newline>ok\<newline>```''"
    using b by simp_all
  from a
    Render_returns [of nilRenderer ?plan "CommandName ''plan''" "''log''" False exampleWorld
      exampleRenderer errTmpl "VStruct [(''Command'', VString ''Plan'')]"]
  have r4: "renderTemplate errTmpl (VStruct [(''Command'', VString ''Plan'')]) =
      ''Failed to render template, this is a bug: '' @ errorText (CantEvaluateField ''Error'')"
    by simp
  from builder_set builder_nil r1 doc_plan r2 r3 a r4 b r5 show ?thesis by simp
qed

end
